theory Spec2Isabelle
  imports Complex_Main
begin

section \<open>Battle session of the guessing game: data model\<close>

text \<open>
  The development embeds \<^verbatim>\<open>src/context/battle-context.tsx\<close>: the shared Room document,
  the client-local session state and the actions a client can invoke.

  Modelling conventions.
  \<^item> A TypeScript string is a \<open>string\<close>. Case mapping and the character classes of the
    regular expression are modelled on ASCII text; characters outside ASCII are left
    alone by the case mappings of the model.
  \<^item> A nullable field is an \<open>option\<close>. JavaScript truthiness of a nullable string
    (\<^verbatim>\<open>if (roomData.guestId)\<close>, \<^verbatim>\<open>!roomCode\<close>) is \<open>truthy\<close>: neither null nor empty.
  \<^item> The document store is a map from room codes to Room documents, with a flag saying
    whether the store can be reached; a call on an unreachable store throws, and the
    \<^verbatim>\<open>catch\<close> blocks of the source are the \<open>Inl\<close> branches of the model.
  \<^item> \<^verbatim>\<open>serverTimestamp()\<close> is the store's clock \<open>serverTime\<close>.
  \<^item> \<^verbatim>\<open>Math.random()\<close> is a sequence of reals, read at a position that every draw
    advances.
  \<^item> An action of the source is a function from the caller's session and the store to
    the new session and store; actions run one at a time.
\<close>

record PokemonData =
  pokemonId :: int
  name :: string
  imageUrl :: string

record PlayerGuess =
  guess :: string
  correct :: bool
  timestamp :: nat

datatype Status = Waiting | Ready | Countdown | Playing | RoundEnd | Finished

datatype Role = Host | Guest

datatype RoundWinner = WinnerHost | WinnerGuest | WinnerNone

record Scores =
  host :: int
  guest :: int

record RoomData =
  hostId :: string
  guestId :: "string option"
  status :: Status
  currentRound :: int
  totalRounds :: int
  currentPokemon :: "PokemonData option"
  scores :: Scores
  roundWinner :: "RoundWinner option"
  gameWinner :: "Role option"
  hostGuess :: "PlayerGuess option"
  guestGuess :: "PlayerGuess option"
  countdownStartAt :: "nat option"
  createdAt :: nat

datatype BattleState =
  BIdle | BCreating | BWaiting | BJoining | BReady | BCountdown | BPlaying | BRoundEnd | BFinished

record Session =
  playerId :: string
  roomCode :: "string option"
  room :: "RoomData option"
  playerRole :: "Role option"
  battleState :: BattleState
  error :: "string option"

definition truthy :: "string option \<Rightarrow> bool" where
  "truthy v = (case v of None \<Rightarrow> False | Some s \<Rightarrow> s \<noteq> [])"

section \<open>Strings\<close>

definition lowerChars :: string where
  "lowerChars = ''abcdefghijklmnopqrstuvwxyz''"

definition upperChars :: string where
  "upperChars = ''ABCDEFGHIJKLMNOPQRSTUVWXYZ''"

definition digitChars :: string where
  "digitChars = ''0123456789''"

definition lowerChar :: "char \<Rightarrow> char" where
  "lowerChar c = (case map_of (zip upperChars lowerChars) c of None \<Rightarrow> c | Some l \<Rightarrow> l)"

definition upperChar :: "char \<Rightarrow> char" where
  "upperChar c = (case map_of (zip lowerChars upperChars) c of None \<Rightarrow> c | Some u \<Rightarrow> u)"

definition toLowerCase :: "string \<Rightarrow> string" where
  "toLowerCase s = map lowerChar s"

definition toUpperCase :: "string \<Rightarrow> string" where
  "toUpperCase s = map upperChar s"

text \<open>White space of \<^verbatim>\<open>String.prototype.trim\<close> in ASCII: tab, line feed, vertical tab,
  form feed, carriage return and space.\<close>

definition isWhiteSpace :: "char \<Rightarrow> bool" where
  "isWhiteSpace c = (of_char c \<in> {9, 10, 11, 12, 13, 32 :: nat})"

definition trim :: "string \<Rightarrow> string" where
  "trim s = rev (dropWhile isWhiteSpace (rev (dropWhile isWhiteSpace s)))"

text \<open>\<^verbatim>\<open>.replace(/[^a-z0-9]/g, '')\<close>: every character outside a-z and 0-9 is removed.\<close>

definition stripNonAlnum :: "string \<Rightarrow> string" where
  "stripNonAlnum s = filter (\<lambda>c. c \<in> set (lowerChars @ digitChars)) s"

text \<open>\<^verbatim>\<open>normalizeString\<close> of the single-player screen, the normal form the specification
  names: lowercase, trim, strip.\<close>

definition normalizeString :: "string \<Rightarrow> string" where
  "normalizeString str = stripNonAlnum (trim (toLowerCase str))"

text \<open>\<^verbatim>\<open>chars.charAt(i)\<close>: the empty string when the index is out of range.\<close>

definition charAt :: "string \<Rightarrow> nat \<Rightarrow> string" where
  "charAt s i = (if i < length s then [s ! i] else [])"

section \<open>Identity and code generation\<close>

definition generatePlayerId :: "string \<Rightarrow> string" where
  "generatePlayerId suffix = ''player_'' @ suffix"

definition chars :: string where
  "chars = ''ABCDEFGHJKLMNPQRSTUVWXYZ23456789''"

text \<open>\<^verbatim>\<open>Math.floor(Math.random() * chars.length)\<close> for the draw \<open>r\<close>.\<close>

definition randomIndex :: "real \<Rightarrow> nat" where
  "randomIndex r = nat \<lfloor>r * real (length chars)\<rfloor>"

text \<open>The loop of \<^verbatim>\<open>generateRoomCode\<close>: \<open>i\<close> counts to 6, each turn appends one
  character and takes one draw.\<close>

function generateRoomCode_loop :: "(nat \<Rightarrow> real) \<Rightarrow> nat \<Rightarrow> nat \<Rightarrow> string \<Rightarrow> string \<times> nat" where
  "generateRoomCode_loop rnd pos i code =
     (if i < 6
      then generateRoomCode_loop rnd (pos + 1) (i + 1) (code @ charAt chars (randomIndex (rnd pos)))
      else (code, pos))"
  by pat_completeness auto
termination
  by (relation "measure (\<lambda>(rnd, pos, i, code). 6 - i)") auto

declare generateRoomCode_loop.simps [simp del]

definition generateRoomCode :: "(nat \<Rightarrow> real) \<Rightarrow> nat \<Rightarrow> string \<times> nat" where
  "generateRoomCode rnd pos = generateRoomCode_loop rnd pos 0 []"

section \<open>The room store\<close>

datatype StoreError = Unavailable | NoDocument | InvalidArgument

record Store =
  docs :: "string \<rightharpoonup> RoomData"
  online :: bool
  serverTime :: nat

text \<open>\<^verbatim>\<open>doc(db, 'rooms', id)\<close> builds the reference of a room document and throws when it
  cannot. The client library reads \<^verbatim>\<open>/\<close> as the separator of a path, and an empty id leaves
  the path of the collection alone, which is not the path of a document. The model keeps to
  the ids that name a document of the rooms collection as they stand, the non-empty strings
  without a separator, and has the call throw on every other string. The room code that a
  session holds comes from \<open>createRoom\<close> or from a successful \<open>joinRoom\<close> and is such an
  id, so the other actions use it as the key of the room.\<close>

definition isDocumentId :: "string \<Rightarrow> bool" where
  "isDocumentId i = (i \<noteq> [] \<and> CHR ''/'' \<notin> set i)"

definition doc :: "string \<Rightarrow> StoreError + string" where
  "doc i = (if isDocumentId i then Inr i else Inl InvalidArgument)"

definition getDoc :: "Store \<Rightarrow> string \<Rightarrow> StoreError + RoomData option" where
  "getDoc st code = (if online st then Inr (docs st code) else Inl Unavailable)"

text \<open>\<^verbatim>\<open>setDoc\<close> writes the whole document, whether or not one is there already.\<close>

definition setDoc :: "Store \<Rightarrow> string \<Rightarrow> RoomData \<Rightarrow> StoreError + Store" where
  "setDoc st code d =
     (if online st then Inr (st\<lparr>docs := (docs st)(code \<mapsto> d)\<rparr>) else Inl Unavailable)"

text \<open>\<^verbatim>\<open>updateDoc\<close> merges the given fields into the stored document, here the function
  \<open>f\<close>, and fails when there is no document.\<close>

definition updateDoc :: "Store \<Rightarrow> string \<Rightarrow> (RoomData \<Rightarrow> RoomData) \<Rightarrow> StoreError + Store" where
  "updateDoc st code f =
     (if online st
      then (case docs st code of
              None \<Rightarrow> Inl NoDocument
            | Some d \<Rightarrow> Inr (st\<lparr>docs := (docs st)(code \<mapsto> f d)\<rparr>))
      else Inl Unavailable)"

definition deleteDoc :: "Store \<Rightarrow> string \<Rightarrow> StoreError + Store" where
  "deleteDoc st code =
     (if online st then Inr (st\<lparr>docs := (docs st)(code := None)\<rparr>) else Inl Unavailable)"

section \<open>The subscription\<close>

definition battleStateOf :: "Status \<Rightarrow> BattleState" where
  "battleStateOf x =
     (case x of Waiting \<Rightarrow> BWaiting | Ready \<Rightarrow> BReady | Countdown \<Rightarrow> BCountdown
      | Playing \<Rightarrow> BPlaying | RoundEnd \<Rightarrow> BRoundEnd | Finished \<Rightarrow> BFinished)"

text \<open>The listener of \<^verbatim>\<open>BattleProvider\<close>, run once on the current store: nothing is
  subscribed without a room code; the error callback runs when the store cannot be reached.\<close>

definition onSnapshot :: "Session \<Rightarrow> Store \<Rightarrow> Session" where
  "onSnapshot s st =
     (case roomCode s of
        None \<Rightarrow> s
      | Some code \<Rightarrow>
          if code = [] then s
          else if \<not> online st then s\<lparr>error := Some ''Connection lost. Please try again.''\<rparr>
          else (case docs st code of
                  Some d \<Rightarrow> s\<lparr>room := Some d, battleState := battleStateOf (status d)\<rparr>
                | None \<Rightarrow> s\<lparr>room := None, roomCode := None, playerRole := None,
                           battleState := BIdle\<rparr>))"

section \<open>Actions\<close>

subsection \<open>createRoom\<close>

text \<open>The \<^verbatim>\<open>while (attempts < 10)\<close> loop: it leaves with the code in hand when the code is
  free, and also when the ten attempts are used up.\<close>

function createRoom_loop ::
  "Store \<Rightarrow> (nat \<Rightarrow> real) \<Rightarrow> string \<Rightarrow> nat \<Rightarrow> nat \<Rightarrow> StoreError + string \<times> nat" where
  "createRoom_loop st rnd code pos attempts =
     (if attempts < 10
      then (case getDoc st code of
              Inl e \<Rightarrow> Inl e
            | Inr None \<Rightarrow> Inr (code, pos)
            | Inr (Some d) \<Rightarrow>
                (case generateRoomCode rnd pos of
                   (code', pos') \<Rightarrow> createRoom_loop st rnd code' pos' (attempts + 1)))
      else Inr (code, pos))"
  by pat_completeness auto
termination
  by (relation "measure (\<lambda>(st, rnd, code, pos, attempts). 10 - attempts)") auto

declare createRoom_loop.simps [simp del]

definition freshRoom :: "string \<Rightarrow> nat \<Rightarrow> RoomData" where
  "freshRoom pid now =
     \<lparr>hostId = pid, guestId = None, status = Waiting, currentRound = 0, totalRounds = 5,
      currentPokemon = None, scores = \<lparr>host = 0, guest = 0\<rparr>, roundWinner = None,
      gameWinner = None, hostGuess = None, guestGuess = None, countdownStartAt = None,
      createdAt = now\<rparr>"

definition createRoom_failed :: "Session \<Rightarrow> Session" where
  "createRoom_failed s =
     s\<lparr>error := Some ''Failed to create room. Please try again.'', battleState := BIdle\<rparr>"

definition createRoom :: "Session \<Rightarrow> Store \<Rightarrow> (nat \<Rightarrow> real) \<Rightarrow> nat \<Rightarrow> Session \<times> Store" where
  "createRoom s st rnd pos =
     (let s1 = s\<lparr>error := None, battleState := BCreating\<rparr> in
      case generateRoomCode rnd pos of
        (code0, pos0) \<Rightarrow>
          (case createRoom_loop st rnd code0 pos0 0 of
             Inl e \<Rightarrow> (createRoom_failed s1, st)
           | Inr (code, pos1) \<Rightarrow>
               (case setDoc st code (freshRoom (playerId s) (serverTime st)) of
                  Inl e \<Rightarrow> (createRoom_failed s1, st)
                | Inr st' \<Rightarrow>
                    (s1\<lparr>roomCode := Some code, playerRole := Some Host,
                        battleState := BWaiting\<rparr>, st'))))"

subsection \<open>joinRoom\<close>

definition joinRoom_failed :: "Session \<Rightarrow> string \<Rightarrow> Session" where
  "joinRoom_failed s msg = s\<lparr>error := Some msg, battleState := BIdle\<rparr>"

text \<open>The reference is built inside the \<^verbatim>\<open>try\<close> block, so a code that is not a document id
  ends in the \<^verbatim>\<open>catch\<close> block like a failed store call.\<close>

definition joinRoom :: "Session \<Rightarrow> Store \<Rightarrow> string \<Rightarrow> bool \<times> Session \<times> Store" where
  "joinRoom s st code =
     (let s1 = s\<lparr>error := None, battleState := BJoining\<rparr> in
      case doc (toUpperCase code) of
        Inl e \<Rightarrow> (False, joinRoom_failed s1 ''Failed to join room. Please try again.'', st)
      | Inr roomRef \<Rightarrow>
          (case getDoc st roomRef of
             Inl e \<Rightarrow>
               (False, joinRoom_failed s1 ''Failed to join room. Please try again.'', st)
           | Inr None \<Rightarrow>
               (False, joinRoom_failed s1 ''Room not found. Check the code and try again.'', st)
           | Inr (Some roomData) \<Rightarrow>
               if truthy (guestId roomData)
               then (False, joinRoom_failed s1 ''Room is full. Try a different code.'', st)
               else if status roomData \<noteq> Waiting
               then (False, joinRoom_failed s1 ''Game already in progress.'', st)
               else (case updateDoc st roomRef
                            (\<lambda>d. d\<lparr>guestId := Some (playerId s), status := Ready\<rparr>) of
                       Inl e \<Rightarrow>
                         (False,
                          joinRoom_failed s1 ''Failed to join room. Please try again.'', st)
                     | Inr st' \<Rightarrow>
                         (True,
                          s1\<lparr>roomCode := Some (toUpperCase code), playerRole := Some Guest,
                             battleState := BReady\<rparr>, st'))))"

subsection \<open>leaveRoom\<close>

definition leaveRoom :: "Session \<Rightarrow> Store \<Rightarrow> Session \<times> Store" where
  "leaveRoom s st =
     (case roomCode s of
        None \<Rightarrow> (s, st)
      | Some code \<Rightarrow>
          if code = [] then (s, st)
          else
            (let st' =
               (case playerRole s of
                  Some Host \<Rightarrow> (case deleteDoc st code of Inl e \<Rightarrow> st | Inr st1 \<Rightarrow> st1)
                | Some Guest \<Rightarrow>
                    (case updateDoc st code (\<lambda>d. d\<lparr>guestId := None, status := Waiting\<rparr>) of
                       Inl e \<Rightarrow> st | Inr st1 \<Rightarrow> st1)
                | None \<Rightarrow> st)
             in (s\<lparr>roomCode := None, room := None, playerRole := None, battleState := BIdle,
                   error := None\<rparr>, st')))"

subsection \<open>startGame\<close>


subsection \<open>The end of the countdown\<close>


subsection \<open>submitGuess\<close>

definition scoreOf :: "Role \<Rightarrow> Scores \<Rightarrow> int" where
  "scoreOf role sc = (case role of Host \<Rightarrow> host sc | Guest \<Rightarrow> guest sc)"

definition incScore :: "Role \<Rightarrow> Scores \<Rightarrow> Scores" where
  "incScore role sc =
     (case role of Host \<Rightarrow> sc\<lparr>host := host sc + 1\<rparr> | Guest \<Rightarrow> sc\<lparr>guest := guest sc + 1\<rparr>)"

definition winnerOf :: "Role \<Rightarrow> RoundWinner" where
  "winnerOf role = (case role of Host \<Rightarrow> WinnerHost | Guest \<Rightarrow> WinnerGuest)"

definition guessOf :: "Role \<Rightarrow> RoomData \<Rightarrow> PlayerGuess option" where
  "guessOf role r = (case role of Host \<Rightarrow> hostGuess r | Guest \<Rightarrow> guestGuess r)"

definition otherRole :: "Role \<Rightarrow> Role" where
  "otherRole role = (case role of Host \<Rightarrow> Guest | Guest \<Rightarrow> Host)"

text \<open>\<^verbatim>\<open>[guessField]: guessData\<close> of the updates.\<close>

definition setGuess :: "Role \<Rightarrow> PlayerGuess \<Rightarrow> RoomData \<Rightarrow> RoomData" where
  "setGuess role g d =
     (case role of Host \<Rightarrow> d\<lparr>hostGuess := Some g\<rparr> | Guest \<Rightarrow> d\<lparr>guestGuess := Some g\<rparr>)"

text \<open>The fields written when the guess is correct, computed from the snapshot \<open>r\<close> that
  the caller holds and merged into the stored document \<open>d\<close>.\<close>

definition correctUpdate :: "Role \<Rightarrow> RoomData \<Rightarrow> PlayerGuess \<Rightarrow> RoomData \<Rightarrow> RoomData" where
  "correctUpdate role r guessData d =
     (let newScores = incScore role (scores r);
          isGameOver = (currentRound r \<ge> 5 \<or> scoreOf role newScores \<ge> 3);
          d1 = (setGuess role guessData d)
                 \<lparr>roundWinner := Some (winnerOf role), scores := newScores,
                  status := (if isGameOver then Finished else RoundEnd)\<rparr>
      in if isGameOver
         then d1\<lparr>gameWinner := Some (if host newScores > guest newScores then Host else Guest)\<rparr>
         else d1)"

text \<open>The fields written when both players have guessed wrong.\<close>

definition bothWrongUpdate :: "Role \<Rightarrow> RoomData \<Rightarrow> PlayerGuess \<Rightarrow> RoomData \<Rightarrow> RoomData" where
  "bothWrongUpdate role r guessData d =
     (let isGameOver = (currentRound r \<ge> 5);
          d1 = (setGuess role guessData d)
                 \<lparr>roundWinner := Some WinnerNone,
                  status := (if isGameOver then Finished else RoundEnd)\<rparr>
      in if isGameOver
         then d1\<lparr>gameWinner :=
                   (if host (scores r) > guest (scores r) then Some Host
                    else if guest (scores r) > host (scores r) then Some Guest else None)\<rparr>
         else d1)"

definition guessUpdate :: "Role \<Rightarrow> RoomData \<Rightarrow> PlayerGuess \<Rightarrow> RoomData \<Rightarrow> RoomData" where
  "guessUpdate role r guessData =
     (if correct guessData then correctUpdate role r guessData
      else (case guessOf (otherRole role) r of
              Some otherGuess \<Rightarrow>
                if correct otherGuess then setGuess role guessData
                else bothWrongUpdate role r guessData
            | None \<Rightarrow> setGuess role guessData))"

definition submitGuess :: "Session \<Rightarrow> Store \<Rightarrow> string \<Rightarrow> bool \<times> Store" where
  "submitGuess s st text =
     (case (roomCode s, room s, playerRole s) of
        (Some code, Some r, Some role) \<Rightarrow>
          if code = [] \<or> status r \<noteq> Playing then (False, st)
          else
            (case currentPokemon r of
               None \<Rightarrow> (False, st)
             | Some pokemon \<Rightarrow>
                 if guessOf role r \<noteq> None then (False, st)
                 else
                   (let normalizedGuess = stripNonAlnum (trim (toLowerCase text));
                        normalizedAnswer = stripNonAlnum (toLowerCase (name pokemon));
                        isCorrect = (normalizedGuess = normalizedAnswer);
                        guessData = \<lparr>guess = normalizedGuess, correct = isCorrect,
                                     timestamp = serverTime st\<rparr>
                    in (isCorrect,
                        case updateDoc st code (guessUpdate role r guessData) of
                          Inl e \<Rightarrow> st
                        | Inr st' \<Rightarrow> st')))
      | _ \<Rightarrow> (False, st))"

subsection \<open>nextRound and playAgain\<close>


definition playAgain :: "Session \<Rightarrow> Store \<Rightarrow> PokemonData option \<Rightarrow> Store" where
  "playAgain s st fetched =
     (case roomCode s of
        None \<Rightarrow> st
      | Some code \<Rightarrow>
          if code = [] \<or> playerRole s \<noteq> Some Host then st
          else
            (case fetched of
               None \<Rightarrow> st
             | Some pokemon \<Rightarrow>
                 (case updateDoc st code
                         (\<lambda>d. d\<lparr>status := Countdown, currentRound := 1,
                                 currentPokemon := Some pokemon,
                                 scores := \<lparr>host = 0, guest = 0\<rparr>, roundWinner := None,
                                 gameWinner := None, hostGuess := None, guestGuess := None,
                                 countdownStartAt := Some (serverTime st)\<rparr>) of
                    Inl e \<Rightarrow> st
                  | Inr st' \<Rightarrow> st')))"

section \<open>Two clients and one store\<close>


















section \<open>Example rooms and sessions\<close>

definition pikachu :: PokemonData where
  "pikachu = \<lparr>pokemonId = 25, name = ''pikachu'', imageUrl = ''pikachu.png''\<rparr>"

definition mrMime :: PokemonData where
  "mrMime = \<lparr>pokemonId = 122, name = ''mr-mime'', imageUrl = ''mr-mime.png''\<rparr>"

definition halves :: "nat \<Rightarrow> real" where
  "halves n = 1 / 2"

definition newcomer :: Session where
  "newcomer =
     \<lparr>playerId = ''player_n'', roomCode = None, room = None, playerRole = None,
      battleState = BIdle, error = None\<rparr>"

definition emptyStore :: Store where
  "emptyStore = \<lparr>docs = Map.empty, online = True, serverTime = 60\<rparr>"

definition waitingRoom :: RoomData where
  "waitingRoom = freshRoom ''player_h'' 1"

definition waitingStore :: Store where
  "waitingStore = \<lparr>docs = [''AB23CD'' \<mapsto> waitingRoom], online = True, serverTime = 5\<rparr>"

definition readyRoom :: RoomData where
  "readyRoom = waitingRoom\<lparr>guestId := Some ''player_g'', status := Ready\<rparr>"

definition readyStore :: Store where
  "readyStore = \<lparr>docs = [''AB23CD'' \<mapsto> readyRoom], online = True, serverTime = 6\<rparr>"

definition abandonedRoom :: RoomData where
  "abandonedRoom = waitingRoom\<lparr>status := RoundEnd\<rparr>"

definition abandonedStore :: Store where
  "abandonedStore = \<lparr>docs = [''AB23CD'' \<mapsto> abandonedRoom], online = True, serverTime = 7\<rparr>"

definition offlineStore :: Store where
  "offlineStore = \<lparr>docs = [''AB23CD'' \<mapsto> waitingRoom], online = False, serverTime = 8\<rparr>"

definition countdownRoom :: RoomData where
  "countdownRoom =
     readyRoom\<lparr>status := Countdown, currentRound := 1, currentPokemon := Some pikachu,
               countdownStartAt := Some 10\<rparr>"

definition playingRoom :: RoomData where
  "playingRoom = countdownRoom\<lparr>status := Playing\<rparr>"

definition playingStore :: Store where
  "playingStore = \<lparr>docs = [''AB23CD'' \<mapsto> playingRoom], online = True, serverTime = 14\<rparr>"

definition hostSession :: "RoomData \<Rightarrow> Session" where
  "hostSession r =
     \<lparr>playerId = ''player_h'', roomCode = Some ''AB23CD'', room = Some r,
      playerRole = Some Host, battleState = battleStateOf (status r), error = None\<rparr>"

definition guestSession :: "RoomData \<Rightarrow> Session" where
  "guestSession r =
     \<lparr>playerId = ''player_g'', roomCode = Some ''AB23CD'', room = Some r,
      playerRole = Some Guest, battleState = battleStateOf (status r), error = None\<rparr>"

definition finishedRoom :: RoomData where
  "finishedRoom =
     playingRoom\<lparr>status := Finished, currentRound := 3, scores := \<lparr>host = 3, guest = 0\<rparr>,
                 roundWinner := Some WinnerHost, gameWinner := Some Host,
                 hostGuess := Some \<lparr>guess = ''pikachu'', correct = True, timestamp = 30\<rparr>\<rparr>"

definition finishedStore :: Store where
  "finishedStore = \<lparr>docs = [''AB23CD'' \<mapsto> finishedRoom], online = True, serverTime = 33\<rparr>"

definition lastRoundRoom :: RoomData where
  "lastRoundRoom = playingRoom\<lparr>currentRound := 5, scores := \<lparr>host = 2, guest = 1\<rparr>\<rparr>"

definition lastRoundStore :: Store where
  "lastRoundStore = \<lparr>docs = [''AB23CD'' \<mapsto> lastRoundRoom], online = True, serverTime = 50\<rparr>"

definition crowdedStore :: Store where
  "crowdedStore = \<lparr>docs = [''SSSSSS'' \<mapsto> lastRoundRoom], online = True, serverTime = 60\<rparr>"





section \<open>Normal forms of strings\<close>

lemma filter_dropWhile_disjoint:
  "(\<And>c. Q c \<Longrightarrow> \<not> P c) \<Longrightarrow> filter P (dropWhile Q s) = filter P s"
  by (induction s) auto

lemma whiteSpace_not_alnum: "isWhiteSpace c \<Longrightarrow> c \<notin> set (lowerChars @ digitChars)"
  by (auto simp add: isWhiteSpace_def lowerChars_def digitChars_def)

text \<open>Trimming before stripping changes nothing: white space is stripped anyway. So the
  answer, which the source does not trim, is normalised the same way as the guess.\<close>

lemma stripNonAlnum_trim: "stripNonAlnum (trim s) = stripNonAlnum s"
proof -
  let ?P = "\<lambda>c. c \<in> set (lowerChars @ digitChars)"
  have d: "\<And>xs. filter ?P (dropWhile isWhiteSpace xs) = filter ?P xs"
    by (rule filter_dropWhile_disjoint) (rule whiteSpace_not_alnum)
  have "filter ?P (trim s) =
        rev (filter ?P (dropWhile isWhiteSpace (rev (dropWhile isWhiteSpace s))))"
    unfolding trim_def by (simp only: rev_filter)
  also have "\<dots> = rev (filter ?P (rev (dropWhile isWhiteSpace s)))"
    by (simp only: d)
  also have "\<dots> = filter ?P (dropWhile isWhiteSpace s)"
    by (simp only: rev_filter rev_rev_ident)
  also have "\<dots> = filter ?P s"
    by (simp only: d)
  finally show ?thesis unfolding stripNonAlnum_def .
qed

lemma lower_upper_disjoint: "set lowerChars \<inter> set upperChars = {}"
  by (simp add: lowerChars_def upperChars_def)

lemma upper_fixed: "u \<in> set upperChars \<Longrightarrow> map_of (zip lowerChars upperChars) u = None"
proof -
  assume "u \<in> set upperChars"
  then have "u \<notin> set lowerChars" using lower_upper_disjoint by blast
  then have "u \<notin> fst ` set (zip lowerChars upperChars)" by (auto dest: set_zip_leftD)
  then show ?thesis by (simp only: map_of_eq_None_iff not_False_eq_True)
qed

lemma upper_image: "map_of (zip lowerChars upperChars) c = Some u \<Longrightarrow> u \<in> set upperChars"
  by (drule map_of_SomeD) (erule set_zip_rightD)

lemma upperChar_idem: "upperChar (upperChar c) = upperChar c"
proof (cases "map_of (zip lowerChars upperChars) c")
  case None
  then show ?thesis by (simp add: upperChar_def)
next
  case (Some u)
  then have "map_of (zip lowerChars upperChars) u = None" by (intro upper_fixed upper_image)
  then show ?thesis using Some by (simp add: upperChar_def)
qed

lemma toUpperCase_idem: "toUpperCase (toUpperCase c) = toUpperCase c"
  by (simp add: toUpperCase_def upperChar_idem)

text \<open>A player id is never empty, so a \<open>guestId\<close> that is set is truthy.\<close>

lemma generatePlayerId_truthy: "truthy (Some (generatePlayerId suffix))"
  by (simp add: truthy_def generatePlayerId_def)

section \<open>Room codes\<close>

lemma randomIndex_bound: "0 \<le> r \<Longrightarrow> r < 1 \<Longrightarrow> randomIndex r < length chars"
proof -
  assume a: "0 \<le> r" "r < 1"
  have len: "length chars = 32" by (simp add: chars_def)
  have "r * 32 < 32" using a by simp
  then have "\<lfloor>r * 32\<rfloor> < 32" by linarith
  moreover have "0 \<le> \<lfloor>r * 32\<rfloor>" using a by simp
  ultimately have "nat \<lfloor>r * 32\<rfloor> < 32" by linarith
  then show ?thesis by (simp add: randomIndex_def len)
qed

lemma charAt_in_range: "i < length s \<Longrightarrow> charAt s i = [s ! i]"
  by (simp add: charAt_def)

lemma generateRoomCode_loop_shape:
  "\<forall>n. 0 \<le> rnd n \<and> rnd n < 1 \<Longrightarrow> i \<le> 6 \<Longrightarrow>
   length (fst (generateRoomCode_loop rnd pos i code)) = length code + (6 - i) \<and>
   set (fst (generateRoomCode_loop rnd pos i code)) \<subseteq> set code \<union> set chars"
proof (induction rnd pos i code rule: generateRoomCode_loop.induct)
  case (1 rnd pos i code)
  show ?case
  proof (cases "i < 6")
    case True
    let ?next = "code @ charAt chars (randomIndex (rnd pos))"
    have b: "randomIndex (rnd pos) < length chars"
      using "1.prems"(1) by (simp add: randomIndex_bound)
    have ih: "length (fst (generateRoomCode_loop rnd (pos + 1) (i + 1) ?next)) =
                length ?next + (6 - (i + 1)) \<and>
              set (fst (generateRoomCode_loop rnd (pos + 1) (i + 1) ?next)) \<subseteq>
                set ?next \<union> set chars"
      using "1.IH"[OF True "1.prems"(1)] True by simp
    have c: "set (charAt chars (randomIndex (rnd pos))) \<subseteq> set chars"
      using b by (simp add: charAt_in_range)
    have l: "length (charAt chars (randomIndex (rnd pos))) = 1"
      using b by (simp add: charAt_in_range)
    have unf: "generateRoomCode_loop rnd pos i code =
               generateRoomCode_loop rnd (pos + 1) (i + 1) ?next"
      using True by (simp add: generateRoomCode_loop.simps[of rnd pos i code])
    show ?thesis unfolding unf using ih c l True by auto
  next
    case False
    then have "i = 6" using "1.prems"(2) by simp
    then show ?thesis by (simp add: generateRoomCode_loop.simps[of rnd pos 6 code])
  qed
qed

lemma generateRoomCode_shape:
  "\<forall>n. 0 \<le> rnd n \<and> rnd n < 1 \<Longrightarrow>
   length (fst (generateRoomCode rnd pos)) = 6 \<and> set (fst (generateRoomCode rnd pos)) \<subseteq> set chars"
  using generateRoomCode_loop_shape[of rnd 0 pos "[]"] by (simp add: generateRoomCode_def)

lemma createRoom_loop_code:
  "\<forall>n. 0 \<le> rnd n \<and> rnd n < 1 \<Longrightarrow> length code = 6 \<and> set code \<subseteq> set chars \<Longrightarrow>
   createRoom_loop st rnd code pos attempts = Inr (code', pos') \<Longrightarrow>
   length code' = 6 \<and> set code' \<subseteq> set chars"
proof (induction st rnd code pos attempts rule: createRoom_loop.induct)
  case (1 st rnd code pos attempts)
  note unf = createRoom_loop.simps[of st rnd code pos attempts]
  show ?case
  proof (cases "attempts < 10")
    case False
    then show ?thesis using "1.prems" by (simp add: unf)
  next
    case True
    show ?thesis
    proof (cases "getDoc st code")
      case (Inl e)
      then show ?thesis using "1.prems"(3) True by (simp add: unf)
    next
      case (Inr v)
      show ?thesis
      proof (cases v)
        case None
        then show ?thesis using "1.prems" True Inr by (simp add: unf)
      next
        case (Some d)
        obtain c2 p2 where g: "generateRoomCode rnd pos = (c2, p2)"
          by (cases "generateRoomCode rnd pos")
        have sh: "length c2 = 6 \<and> set c2 \<subseteq> set chars"
          using generateRoomCode_shape[OF "1.prems"(1), of pos] g by simp
        have rec: "createRoom_loop st rnd c2 p2 (attempts + 1) = Inr (code', pos')"
          using "1.prems"(3) True Inr Some g by (simp add: unf)
        show ?thesis
          using "1.IH"[OF True Inr Some g[symmetric] "1.prems"(1) sh rec] .
      qed
    qed
  qed
qed

lemma chars_facts:
  "length chars = 32 \<and> distinct chars \<and> set chars \<subseteq> set (upperChars @ digitChars)
   \<and> set chars \<inter> set ''0O1I'' = {}"
  by (simp add: chars_def upperChars_def digitChars_def)

lemma generateRoomCode_halves: "generateRoomCode halves pos = (''SSSSSS'', pos + 6)"
  by (simp add: generateRoomCode_def generateRoomCode_loop.simps halves_def randomIndex_def
        chars_def charAt_def)

text \<open>C7, as stated: room codes are drawn from an alphabet of 33 characters. The alphabet
  of \<^verbatim>\<open>generateRoomCode\<close> has 32 characters, all different: the 26 capital letters without
  I and O, and the digits 2 to 9.\<close>

theorem alphabet_size_counterexample:
  "\<not> (length chars = 33 \<or> card (set chars) = 33)"
proof -
  have "length chars = 32" and "distinct chars" using chars_facts by simp_all
  then have "card (set chars) = 32" by (simp add: distinct_card)
  then show ?thesis using \<open>length chars = 32\<close> by simp
qed

text \<open>C7, amended: when every draw of the random source lies in [0, 1), every room code
  that \<open>createRoom\<close> assigns has 6 characters, each drawn from a fixed alphabet of 32
  characters, which are capital letters and digits and exclude 0, O, 1 and I.\<close>

theorem createRoom_code_alphabet:
  assumes "\<forall>n. 0 \<le> rnd n \<and> rnd n < 1"
    and "battleState (fst (createRoom s st rnd pos)) = BWaiting"
  shows "(\<exists>code. roomCode (fst (createRoom s st rnd pos)) = Some code
            \<and> length code = 6 \<and> set code \<subseteq> set chars)
         \<and> length chars = 32 \<and> distinct chars
         \<and> set chars \<subseteq> set (upperChars @ digitChars)
         \<and> set chars \<inter> set ''0O1I'' = {}"
proof -
  obtain code0 pos0 where g: "generateRoomCode rnd pos = (code0, pos0)"
    by (cases "generateRoomCode rnd pos")
  have sh: "length code0 = 6 \<and> set code0 \<subseteq> set chars"
    using generateRoomCode_shape[OF assms(1), of pos] g by simp
  have "\<exists>code. roomCode (fst (createRoom s st rnd pos)) = Some code
            \<and> length code = 6 \<and> set code \<subseteq> set chars"
  proof (cases "createRoom_loop st rnd code0 pos0 0")
    case (Inl e)
    then show ?thesis using assms(2) g by (simp add: createRoom_def createRoom_failed_def)
  next
    case (Inr v)
    obtain code pos1 where v: "v = (code, pos1)" by (cases v)
    have c: "length code = 6 \<and> set code \<subseteq> set chars"
      using createRoom_loop_code[OF assms(1) sh] Inr v by simp
    show ?thesis
    proof (cases "setDoc st code (freshRoom (playerId s) (serverTime st))")
      case (Inl e)
      then show ?thesis using assms(2) g Inr v
        by (simp add: createRoom_def createRoom_failed_def)
    next
      case (Inr st')
      then have "roomCode (fst (createRoom s st rnd pos)) = Some code"
        using g \<open>createRoom_loop st rnd code0 pos0 0 = Inr v\<close> v by (simp add: createRoom_def)
      then show ?thesis using c by simp
    qed
  qed
  then show ?thesis using chars_facts by simp
qed

text \<open>Witness for C7: with every draw equal to one half, on an empty store, the code is
  SSSSSS.\<close>

theorem createRoom_code_alphabet_witness:
  "(\<forall>n. 0 \<le> halves n \<and> halves n < 1)
   \<and> battleState (fst (createRoom newcomer emptyStore halves 0)) = BWaiting
   \<and> roomCode (fst (createRoom newcomer emptyStore halves 0)) = Some ''SSSSSS''
   \<and> set ''SSSSSS'' \<subseteq> set chars \<and> length chars = 32"
proof -
  have h1: "\<forall>n. 0 \<le> halves n \<and> halves n < 1" by (simp add: halves_def)
  have ev: "fst (createRoom newcomer emptyStore halves 0) =
            newcomer\<lparr>roomCode := Some ''SSSSSS'', playerRole := Some Host,
                     battleState := BWaiting\<rparr>"
    by (simp add: createRoom_def generateRoomCode_halves createRoom_loop.simps getDoc_def
          setDoc_def emptyStore_def newcomer_def)
  have h2: "battleState (fst (createRoom newcomer emptyStore halves 0)) = BWaiting"
    by (simp add: ev)
  show ?thesis using createRoom_code_alphabet[OF h1 h2] h1 h2 by (auto simp: ev)
qed

section \<open>Guesses\<close>

text \<open>C2: in a room that is \<open>Playing\<close>, with an active creature and no earlier guess of the
  caller, \<open>submitGuess\<close> returns true exactly when the guess and the creature's name have
  the same normal form (lowercase, trim, strip what is not a-z or 0-9).\<close>

theorem submitGuess_result:
  assumes "roomCode s = Some code" and "code \<noteq> []" and "room s = Some r"
    and "playerRole s = Some role" and "status r = Playing"
    and "currentPokemon r = Some pokemon" and "guessOf role r = None"
  shows "fst (submitGuess s st text) = (normalizeString text = normalizeString (name pokemon))"
  using assms by (simp add: submitGuess_def normalizeString_def stripNonAlnum_trim Let_def)

text \<open>Witness for C2: the guest answers pikachu with capitals, blanks and punctuation.\<close>

theorem submitGuess_result_witness:
  "roomCode (guestSession playingRoom) = Some ''AB23CD''
   \<and> status playingRoom = Playing \<and> currentPokemon playingRoom = Some pikachu
   \<and> guessOf Guest playingRoom = None
   \<and> fst (submitGuess (guestSession playingRoom) playingStore ''  Pika-CHU! '')
   \<and> normalizeString ''  Pika-CHU! '' = normalizeString (name pikachu)"
proof -
  have h: "roomCode (guestSession playingRoom) = Some ''AB23CD''" "''AB23CD'' \<noteq> []"
    "room (guestSession playingRoom) = Some playingRoom"
    "playerRole (guestSession playingRoom) = Some Guest"
    "status playingRoom = Playing" "currentPokemon playingRoom = Some pikachu"
    "guessOf Guest playingRoom = None"
    by (simp_all add: guestSession_def playingRoom_def countdownRoom_def readyRoom_def
          waitingRoom_def freshRoom_def guessOf_def)
  have n: "normalizeString ''  Pika-CHU! '' = normalizeString (name pikachu)"
    by (simp add: normalizeString_def toLowerCase_def lowerChar_def trim_def stripNonAlnum_def
          isWhiteSpace_def upperChars_def lowerChars_def digitChars_def pikachu_def)
  show ?thesis
    using submitGuess_result[OF h, of playingStore "''  Pika-CHU! ''"] h n by simp
qed

text \<open>C5, as stated: a second \<open>submitGuess\<close> of the same player in the same round returns
  false and leaves both guess fields as they are. The guard reads the snapshot the caller
  holds: on the snapshot of the first call, taken before the first guess was recorded, the
  second call passes the guard. Here the guest guesses wrong and then, on the same snapshot,
  right: the second call returns true and replaces the recorded guess.\<close>

theorem second_guess_counterexample:
  "\<not> fst (submitGuess (guestSession playingRoom) playingStore ''mew'')
   \<and> docs (snd (submitGuess (guestSession playingRoom) playingStore ''mew'')) ''AB23CD'' =
       Some (playingRoom
              \<lparr>guestGuess := Some \<lparr>guess = ''mew'', correct = False, timestamp = 14\<rparr>\<rparr>)
   \<and> fst (submitGuess (guestSession playingRoom)
             (snd (submitGuess (guestSession playingRoom) playingStore ''mew'')) ''pikachu'')
   \<and> docs (snd (submitGuess (guestSession playingRoom)
                  (snd (submitGuess (guestSession playingRoom) playingStore ''mew''))
                  ''pikachu'')) ''AB23CD'' =
       Some (playingRoom
              \<lparr>status := RoundEnd, scores := \<lparr>host = 0, guest = 1\<rparr>,
               roundWinner := Some WinnerGuest,
               guestGuess := Some \<lparr>guess = ''pikachu'', correct = True, timestamp = 14\<rparr>\<rparr>)"
  by (simp add: submitGuess_def guestSession_def playingStore_def playingRoom_def
        countdownRoom_def readyRoom_def waitingRoom_def freshRoom_def pikachu_def
        guessOf_def otherRole_def Let_def updateDoc_def guessUpdate_def correctUpdate_def
        incScore_def scoreOf_def setGuess_def winnerOf_def stripNonAlnum_def trim_def
        toLowerCase_def lowerChar_def isWhiteSpace_def upperChars_def lowerChars_def
        digitChars_def)

text \<open>C5, amended: \<open>submitGuess\<close> returns false and leaves the store as it is when the
  room of the caller's snapshot is not \<open>Playing\<close>, when it has no active creature, or when
  it records a guess of the caller. In particular, once a first guess is written and the
  snapshot that shows it is delivered to the caller, a second guess of the same player in
  the same round returns false and writes nothing, so both guess fields stay as they
  are.\<close>

theorem submitGuess_noop:
  "(room s = Some r \<and>
      (status r \<noteq> Playing \<or> currentPokemon r = None
       \<or> (playerRole s = Some role \<and> guessOf role r \<noteq> None))
     \<longrightarrow> submitGuess s st t = (False, st))
   \<and> (roomCode s = Some code \<and> code \<noteq> [] \<and> room s = Some r \<and> playerRole s = Some role \<and>
      status r = Playing \<and> currentPokemon r \<noteq> None \<and> guessOf role r = None \<and>
      online st \<and> docs st code \<noteq> None
     \<longrightarrow> (let st1 = snd (submitGuess s st t); s1 = onSnapshot s st1
          in guessOf role (the (docs st1 code)) \<noteq> None
             \<and> submitGuess s1 st1 t2 = (False, st1)))"
proof (intro conjI impI)
  assume "room s = Some r \<and>
      (status r \<noteq> Playing \<or> currentPokemon r = None
       \<or> (playerRole s = Some role \<and> guessOf role r \<noteq> None))"
  then show "submitGuess s st t = (False, st)"
    by (auto simp: submitGuess_def split: option.splits)
next
  assume a: "roomCode s = Some code \<and> code \<noteq> [] \<and> room s = Some r \<and> playerRole s = Some role \<and>
      status r = Playing \<and> currentPokemon r \<noteq> None \<and> guessOf role r = None \<and>
      online st \<and> docs st code \<noteq> None"
  then obtain d pokemon where d: "docs st code = Some d"
    and p: "currentPokemon r = Some pokemon" by auto
  define g where "g = \<lparr>guess = stripNonAlnum (trim (toLowerCase t)),
      correct = (stripNonAlnum (trim (toLowerCase t)) = stripNonAlnum (toLowerCase (name pokemon))),
      timestamp = serverTime st\<rparr>"
  define st1 where "st1 = snd (submitGuess s st t)"
  have st1: "st1 = st\<lparr>docs := (docs st)(code \<mapsto> guessUpdate role r g d)\<rparr>"
    using a d p by (simp add: st1_def submitGuess_def Let_def g_def updateDoc_def)
  have rec: "guessOf role (guessUpdate role r g d) \<noteq> None"
    by (cases role)
       (auto simp: guessUpdate_def correctUpdate_def bothWrongUpdate_def setGuess_def guessOf_def
          Let_def split: option.splits)
  have s1: "room (onSnapshot s st1) = Some (guessUpdate role r g d)"
    "playerRole (onSnapshot s st1) = Some role"
    using a by (simp_all add: onSnapshot_def st1)
  have "submitGuess (onSnapshot s st1) st1 t2 = (False, st1)"
    using s1 rec by (auto simp: submitGuess_def split: option.splits)
  moreover have "guessOf role (the (docs st1 code)) \<noteq> None"
    using rec by (simp add: st1)
  ultimately show "let st1 = snd (submitGuess s st t); s1 = onSnapshot s st1
          in guessOf role (the (docs st1 code)) \<noteq> None \<and> submitGuess s1 st1 t2 = (False, st1)"
    by (simp add: st1_def Let_def)
qed

text \<open>Witness for C5: a guess in a room that is only \<open>Ready\<close>; and, in a room that is
  \<open>Playing\<close>, a wrong guess of the guest followed by the right answer.\<close>

theorem submitGuess_noop_witness:
  "status readyRoom \<noteq> Playing
   \<and> submitGuess (guestSession readyRoom) readyStore ''pikachu'' = (False, readyStore)
   \<and> status playingRoom = Playing \<and> guessOf Guest playingRoom = None
   \<and> (let st1 = snd (submitGuess (guestSession playingRoom) playingStore ''mew'');
          s1 = onSnapshot (guestSession playingRoom) st1
      in guessOf Guest (the (docs st1 ''AB23CD'')) \<noteq> None
         \<and> submitGuess s1 st1 ''pikachu'' = (False, st1))"
proof -
  have a: "room (guestSession readyRoom) = Some readyRoom
      \<and> (status readyRoom \<noteq> Playing \<or> currentPokemon readyRoom = None
          \<or> (playerRole (guestSession readyRoom) = Some Guest
              \<and> guessOf Guest readyRoom \<noteq> None))"
    by (simp add: guestSession_def readyRoom_def)
  have b: "roomCode (guestSession playingRoom) = Some ''AB23CD'' \<and> ''AB23CD'' \<noteq> []
      \<and> room (guestSession playingRoom) = Some playingRoom
      \<and> playerRole (guestSession playingRoom) = Some Guest
      \<and> status playingRoom = Playing \<and> currentPokemon playingRoom \<noteq> None
      \<and> guessOf Guest playingRoom = None
      \<and> online playingStore \<and> docs playingStore ''AB23CD'' \<noteq> None"
    by (simp add: guestSession_def playingRoom_def countdownRoom_def readyRoom_def
          waitingRoom_def freshRoom_def guessOf_def playingStore_def)
  have c: "status readyRoom \<noteq> Playing" by (simp add: readyRoom_def)
  show ?thesis
    using submitGuess_noop[where s = "guestSession readyRoom" and r = readyRoom and role = Guest
            and st = readyStore and t = "''pikachu''", THEN conjunct1, THEN mp, OF a]
      submitGuess_noop[where s = "guestSession playingRoom" and r = playingRoom and role = Guest
            and code = "''AB23CD''" and st = playingStore and t = "''mew''"
            and ?t2.0 = "''pikachu''", THEN conjunct2, THEN mp, OF b]
      b c
    by simp
qed

section \<open>The end of a match\<close>

text \<open>C1: when a guess resolves a round, the room is \<open>Finished\<close> exactly when the round limit
  is reached or a score reaches 3, and \<open>gameWinner\<close> is the strictly higher scorer, or null
  when the scores are tied at the round limit. The source breaks the last part: a correct
  guess in round 5 that ties the scores names the guest as winner. Here the guest guesses
  right at 2 to 1 for the host: the match ends 2 to 2 with \<open>gameWinner\<close> the guest, not null.\<close>

theorem submitGuess_tie_names_guest:
  "fst (submitGuess (guestSession lastRoundRoom) lastRoundStore ''Pikachu'')
   \<and> docs (snd (submitGuess (guestSession lastRoundRoom) lastRoundStore ''Pikachu'')) ''AB23CD'' =
       Some (lastRoundRoom
              \<lparr>status := Finished, scores := \<lparr>host = 2, guest = 2\<rparr>,
               roundWinner := Some WinnerGuest, gameWinner := Some Guest,
               guestGuess := Some \<lparr>guess = ''pikachu'', correct = True, timestamp = 50\<rparr>\<rparr>)"
  by (simp add: submitGuess_def guestSession_def lastRoundStore_def lastRoundRoom_def
        playingRoom_def countdownRoom_def readyRoom_def waitingRoom_def freshRoom_def pikachu_def
        guessOf_def Let_def updateDoc_def guessUpdate_def correctUpdate_def incScore_def
        scoreOf_def setGuess_def winnerOf_def stripNonAlnum_def trim_def toLowerCase_def
        lowerChar_def isWhiteSpace_def upperChars_def lowerChars_def digitChars_def)

section \<open>Creating, joining and leaving a room\<close>

text \<open>C3: \<open>createRoom\<close> fails, without writing a Room, when all retries collide. The source
  does not: after ten collisions the loop ends with an eleventh code that is never checked,
  and the Room is written under it. Here every code drawn is SSSSSS and a match is stored
  under it: \<open>createRoom\<close> reports no error, makes the caller host of SSSSSS and replaces
  the stored match by a fresh Room.\<close>

theorem createRoom_overwrites_after_ten_collisions:
  "createRoom newcomer crowdedStore halves 0 =
     (newcomer\<lparr>roomCode := Some ''SSSSSS'', playerRole := Some Host, battleState := BWaiting\<rparr>,
      crowdedStore\<lparr>docs := (docs crowdedStore)(''SSSSSS'' \<mapsto> freshRoom ''player_n'' 60)\<rparr>)
   \<and> docs crowdedStore ''SSSSSS'' = Some lastRoundRoom
   \<and> error (fst (createRoom newcomer crowdedStore halves 0)) = None"
  by (simp add: createRoom_def generateRoomCode_halves createRoom_loop.simps setDoc_def getDoc_def
        createRoom_failed_def newcomer_def crowdedStore_def)

text \<open>More generally the loop never fails on a store that can be reached, whatever the
  store holds, so \<open>createRoom\<close> always writes a Room there.\<close>

lemma createRoom_loop_online:
  "online st \<Longrightarrow> \<exists>code' pos'. createRoom_loop st rnd code pos attempts = Inr (code', pos')"
proof (induction st rnd code pos attempts rule: createRoom_loop.induct)
  case (1 st rnd code pos attempts)
  note unf = createRoom_loop.simps[of st rnd code pos attempts]
  show ?case
  proof (cases "attempts < 10")
    case False
    then show ?thesis by (simp add: unf)
  next
    case True
    have g: "getDoc st code = Inr (docs st code)" using "1.prems" by (simp add: getDoc_def)
    show ?thesis
    proof (cases "docs st code")
      case None
      then show ?thesis using True g by (simp add: unf)
    next
      case (Some d)
      obtain c2 p2 where c: "generateRoomCode rnd pos = (c2, p2)"
        by (cases "generateRoomCode rnd pos")
      have "\<exists>code' pos'. createRoom_loop st rnd c2 p2 (attempts + 1) = Inr (code', pos')"
        using "1.IH"[OF True _ _ c[symmetric] "1.prems"] g Some by simp
      then show ?thesis using True g Some c by (simp add: unf)
    qed
  qed
qed

lemma createRoom_online:
  assumes "online st"
  shows "battleState (fst (createRoom s st rnd pos)) = BWaiting
         \<and> error (fst (createRoom s st rnd pos)) = None
         \<and> playerRole (fst (createRoom s st rnd pos)) = Some Host
         \<and> (\<exists>code. roomCode (fst (createRoom s st rnd pos)) = Some code
              \<and> docs (snd (createRoom s st rnd pos)) code
                  = Some (freshRoom (playerId s) (serverTime st)))"
proof -
  obtain code0 pos0 where g: "generateRoomCode rnd pos = (code0, pos0)"
    by (cases "generateRoomCode rnd pos")
  obtain code pos1 where l: "createRoom_loop st rnd code0 pos0 0 = Inr (code, pos1)"
    using createRoom_loop_online[OF assms] by blast
  show ?thesis using assms g l by (simp add: createRoom_def setDoc_def)
qed

lemma joinRoom_failure_shape:
  "fst (joinRoom s st code) \<or>
   (\<exists>msg. snd (joinRoom s st code) =
      (joinRoom_failed (s\<lparr>error := None, battleState := BJoining\<rparr>) msg, st))"
  by (auto simp: joinRoom_def Let_def split: option.splits sum.splits)

text \<open>The room code that a successful \<open>joinRoom\<close> leaves in the session is a document
  id.\<close>

lemma joinRoom_roomCode_isDocumentId:
  "fst (joinRoom s st code) \<Longrightarrow> isDocumentId (toUpperCase code)"
  by (auto simp: joinRoom_def doc_def Let_def split: if_splits)

text \<open>C4, as stated: for every code, \<open>joinRoom\<close> fails with the not-found message when
  no room is stored under the code. For the empty code, and for the code AB/CDE, no room is
  stored, but the document reference cannot be built; the call throws inside the
  \<^verbatim>\<open>try\<close> block and the message is the one of the \<^verbatim>\<open>catch\<close> block.\<close>

theorem join_invalid_code_counterexample:
  "docs emptyStore (toUpperCase []) = None
   \<and> joinRoom newcomer emptyStore [] =
       (False, newcomer\<lparr>error := Some ''Failed to join room. Please try again.''\<rparr>, emptyStore)
   \<and> error (fst (snd (joinRoom newcomer emptyStore []))) \<noteq>
       Some ''Room not found. Check the code and try again.''
   \<and> docs emptyStore (toUpperCase ''AB/CDE'') = None
   \<and> joinRoom newcomer emptyStore ''AB/CDE'' =
       (False, newcomer\<lparr>error := Some ''Failed to join room. Please try again.''\<rparr>, emptyStore)"
  by (simp add: joinRoom_def joinRoom_failed_def doc_def isDocumentId_def toUpperCase_def
        upperChar_def lowerChars_def upperChars_def emptyStore_def newcomer_def)

text \<open>C4, amended: for a code whose upper-case form is not a document id, \<open>joinRoom\<close>
  fails with the message of the \<^verbatim>\<open>catch\<close> block. For every other code, \<open>joinRoom\<close> fails
  with the not-found message when no room is stored under the code, with the room-full
  message when \<open>guestId\<close> is set (the store is left as it is), and with the in-progress
  message when the room is not \<open>Waiting\<close>; otherwise it writes the caller's id as \<open>guestId\<close>
  and \<open>Ready\<close> as status, makes the caller guest and returns true. Every failure returns
  false, leaves the local state \<open>BIdle\<close> with an error message and leaves the store as it
  is.\<close>

theorem joinRoom_outcomes:
  "(\<not> isDocumentId (toUpperCase code) \<longrightarrow>
      joinRoom s st code =
        (False, s\<lparr>error := Some ''Failed to join room. Please try again.'',
                  battleState := BIdle\<rparr>, st))
   \<and> (isDocumentId (toUpperCase code) \<and> online st \<and> docs st (toUpperCase code) = None \<longrightarrow>
      joinRoom s st code =
        (False, s\<lparr>error := Some ''Room not found. Check the code and try again.'',
                  battleState := BIdle\<rparr>, st))
   \<and> (isDocumentId (toUpperCase code) \<and> online st \<and> docs st (toUpperCase code) = Some r
        \<and> truthy (guestId r) \<longrightarrow>
      joinRoom s st code =
        (False, s\<lparr>error := Some ''Room is full. Try a different code.'',
                  battleState := BIdle\<rparr>, st))
   \<and> (isDocumentId (toUpperCase code) \<and> online st \<and> docs st (toUpperCase code) = Some r
        \<and> \<not> truthy (guestId r) \<and> status r \<noteq> Waiting \<longrightarrow>
      joinRoom s st code =
        (False, s\<lparr>error := Some ''Game already in progress.'', battleState := BIdle\<rparr>, st))
   \<and> (isDocumentId (toUpperCase code) \<and> online st \<and> docs st (toUpperCase code) = Some r
        \<and> \<not> truthy (guestId r) \<and> status r = Waiting \<longrightarrow>
      joinRoom s st code =
        (True,
         s\<lparr>error := None, roomCode := Some (toUpperCase code), playerRole := Some Guest,
           battleState := BReady\<rparr>,
         st\<lparr>docs := (docs st)(toUpperCase code \<mapsto>
                                 r\<lparr>guestId := Some (playerId s), status := Ready\<rparr>)\<rparr>))
   \<and> (\<not> fst (joinRoom s st code) \<longrightarrow>
        battleState (fst (snd (joinRoom s st code))) = BIdle
        \<and> error (fst (snd (joinRoom s st code))) \<noteq> None
        \<and> roomCode (fst (snd (joinRoom s st code))) = roomCode s
        \<and> playerRole (fst (snd (joinRoom s st code))) = playerRole s
        \<and> snd (snd (joinRoom s st code)) = st)"
proof (intro conjI)
  show "\<not> isDocumentId (toUpperCase code) \<longrightarrow>
      joinRoom s st code =
        (False, s\<lparr>error := Some ''Failed to join room. Please try again.'',
                  battleState := BIdle\<rparr>, st)"
    by (simp add: joinRoom_def joinRoom_failed_def doc_def)
  show "isDocumentId (toUpperCase code) \<and> online st \<and> docs st (toUpperCase code) = None \<longrightarrow>
      joinRoom s st code =
        (False, s\<lparr>error := Some ''Room not found. Check the code and try again.'',
                  battleState := BIdle\<rparr>, st)"
    by (simp add: joinRoom_def joinRoom_failed_def doc_def getDoc_def)
  show "isDocumentId (toUpperCase code) \<and> online st \<and> docs st (toUpperCase code) = Some r
        \<and> truthy (guestId r) \<longrightarrow>
      joinRoom s st code =
        (False, s\<lparr>error := Some ''Room is full. Try a different code.'',
                  battleState := BIdle\<rparr>, st)"
    by (simp add: joinRoom_def joinRoom_failed_def doc_def getDoc_def)
  show "isDocumentId (toUpperCase code) \<and> online st \<and> docs st (toUpperCase code) = Some r
        \<and> \<not> truthy (guestId r) \<and> status r \<noteq> Waiting \<longrightarrow>
      joinRoom s st code =
        (False, s\<lparr>error := Some ''Game already in progress.'', battleState := BIdle\<rparr>, st)"
    by (simp add: joinRoom_def joinRoom_failed_def doc_def getDoc_def)
  show "isDocumentId (toUpperCase code) \<and> online st \<and> docs st (toUpperCase code) = Some r
        \<and> \<not> truthy (guestId r) \<and> status r = Waiting \<longrightarrow>
      joinRoom s st code =
        (True,
         s\<lparr>error := None, roomCode := Some (toUpperCase code), playerRole := Some Guest,
           battleState := BReady\<rparr>,
         st\<lparr>docs := (docs st)(toUpperCase code \<mapsto>
                                 r\<lparr>guestId := Some (playerId s), status := Ready\<rparr>)\<rparr>)"
    by (simp add: joinRoom_def joinRoom_failed_def doc_def getDoc_def updateDoc_def)
  show "\<not> fst (joinRoom s st code) \<longrightarrow>
        battleState (fst (snd (joinRoom s st code))) = BIdle
        \<and> error (fst (snd (joinRoom s st code))) \<noteq> None
        \<and> roomCode (fst (snd (joinRoom s st code))) = roomCode s
        \<and> playerRole (fst (snd (joinRoom s st code))) = playerRole s
        \<and> snd (snd (joinRoom s st code)) = st"
  proof
    assume "\<not> fst (joinRoom s st code)"
    then obtain msg where m: "snd (joinRoom s st code) =
        (joinRoom_failed (s\<lparr>error := None, battleState := BJoining\<rparr>) msg, st)"
      using joinRoom_failure_shape[of s st code] by blast
    show "battleState (fst (snd (joinRoom s st code))) = BIdle
        \<and> error (fst (snd (joinRoom s st code))) \<noteq> None
        \<and> roomCode (fst (snd (joinRoom s st code))) = roomCode s
        \<and> playerRole (fst (snd (joinRoom s st code))) = playerRole s
        \<and> snd (snd (joinRoom s st code)) = st"
      by (simp add: m joinRoom_failed_def)
  qed
qed

text \<open>Witness for C4: a newcomer joins with the code AB/CDE, which is not a document id;
  and with the code ab23cd on an empty store, on a room that has its guest, on a room left in
  \<open>RoundEnd\<close> without a guest, on a waiting room, and on a store that cannot be reached.\<close>

theorem joinRoom_outcomes_witness:
  "joinRoom newcomer waitingStore ''AB/CDE'' =
     (False, newcomer\<lparr>error := Some ''Failed to join room. Please try again.''\<rparr>,
      waitingStore)
   \<and> joinRoom newcomer emptyStore ''ab23cd'' =
     (False, newcomer\<lparr>error := Some ''Room not found. Check the code and try again.''\<rparr>,
      emptyStore)
   \<and> truthy (guestId readyRoom)
   \<and> joinRoom newcomer readyStore ''ab23cd'' =
     (False, newcomer\<lparr>error := Some ''Room is full. Try a different code.''\<rparr>, readyStore)
   \<and> \<not> truthy (guestId abandonedRoom) \<and> status abandonedRoom \<noteq> Waiting
   \<and> joinRoom newcomer abandonedStore ''ab23cd'' =
     (False, newcomer\<lparr>error := Some ''Game already in progress.''\<rparr>, abandonedStore)
   \<and> joinRoom newcomer waitingStore ''ab23cd'' =
     (True,
      newcomer\<lparr>roomCode := Some ''AB23CD'', playerRole := Some Guest, battleState := BReady\<rparr>,
      waitingStore\<lparr>docs := [''AB23CD'' \<mapsto>
                               waitingRoom\<lparr>guestId := Some ''player_n'', status := Ready\<rparr>]\<rparr>)
   \<and> \<not> fst (joinRoom newcomer offlineStore ''ab23cd'')
   \<and> battleState (fst (snd (joinRoom newcomer offlineStore ''ab23cd''))) = BIdle
   \<and> snd (snd (joinRoom newcomer offlineStore ''ab23cd'')) = offlineStore"
proof -
  have up: "toUpperCase ''ab23cd'' = ''AB23CD''" "toUpperCase ''AB/CDE'' = ''AB/CDE''"
    by (simp_all add: toUpperCase_def upperChar_def lowerChars_def upperChars_def)
  have i: "isDocumentId (toUpperCase ''ab23cd'')"
    by (simp add: up isDocumentId_def)
  have z: "\<not> isDocumentId (toUpperCase ''AB/CDE'')"
    by (simp add: up isDocumentId_def)
  have a: "isDocumentId (toUpperCase ''ab23cd'') \<and> online emptyStore
      \<and> docs emptyStore (toUpperCase ''ab23cd'') = None"
    using i by (simp add: emptyStore_def)
  have b: "isDocumentId (toUpperCase ''ab23cd'') \<and> online readyStore
      \<and> docs readyStore (toUpperCase ''ab23cd'') = Some readyRoom
      \<and> truthy (guestId readyRoom)"
    using i by (simp add: up readyStore_def readyRoom_def truthy_def)
  have c: "isDocumentId (toUpperCase ''ab23cd'') \<and> online abandonedStore
      \<and> docs abandonedStore (toUpperCase ''ab23cd'') = Some abandonedRoom
      \<and> \<not> truthy (guestId abandonedRoom) \<and> status abandonedRoom \<noteq> Waiting"
    using i
    by (simp add: up abandonedStore_def abandonedRoom_def waitingRoom_def freshRoom_def
          truthy_def)
  have d: "isDocumentId (toUpperCase ''ab23cd'') \<and> online waitingStore
      \<and> docs waitingStore (toUpperCase ''ab23cd'') = Some waitingRoom
      \<and> \<not> truthy (guestId waitingRoom) \<and> status waitingRoom = Waiting"
    using i by (simp add: up waitingStore_def waitingRoom_def freshRoom_def truthy_def)
  have e: "\<not> fst (joinRoom newcomer offlineStore ''ab23cd'')"
    by (simp add: joinRoom_def doc_def i getDoc_def offlineStore_def)
  note t = joinRoom_outcomes[where s = newcomer and code = "''ab23cd''"]
  have 0: "joinRoom newcomer waitingStore ''AB/CDE'' =
     (False, newcomer\<lparr>error := Some ''Failed to join room. Please try again.''\<rparr>,
      waitingStore)"
    using joinRoom_outcomes[where s = newcomer and code = "''AB/CDE''" and st = waitingStore,
            THEN conjunct1, THEN mp, OF z]
    by (simp add: newcomer_def)
  have 1: "joinRoom newcomer emptyStore ''ab23cd'' =
     (False, newcomer\<lparr>error := Some ''Room not found. Check the code and try again.''\<rparr>,
      emptyStore)"
    using t[where st = emptyStore, THEN conjunct2, THEN conjunct1, THEN mp, OF a]
    by (simp add: newcomer_def)
  have 2: "joinRoom newcomer readyStore ''ab23cd'' =
     (False, newcomer\<lparr>error := Some ''Room is full. Try a different code.''\<rparr>, readyStore)"
    using t[where st = readyStore and r = readyRoom,
            THEN conjunct2, THEN conjunct2, THEN conjunct1, THEN mp, OF b]
    by (simp add: newcomer_def)
  have 3: "joinRoom newcomer abandonedStore ''ab23cd'' =
     (False, newcomer\<lparr>error := Some ''Game already in progress.''\<rparr>, abandonedStore)"
    using t[where st = abandonedStore and r = abandonedRoom,
            THEN conjunct2, THEN conjunct2, THEN conjunct2, THEN conjunct1, THEN mp, OF c]
    by (simp add: newcomer_def)
  have 4: "joinRoom newcomer waitingStore ''ab23cd'' =
     (True,
      newcomer\<lparr>roomCode := Some ''AB23CD'', playerRole := Some Guest, battleState := BReady\<rparr>,
      waitingStore\<lparr>docs := [''AB23CD'' \<mapsto>
                               waitingRoom\<lparr>guestId := Some ''player_n'', status := Ready\<rparr>]\<rparr>)"
    using t[where st = waitingStore and r = waitingRoom,
            THEN conjunct2, THEN conjunct2, THEN conjunct2, THEN conjunct2, THEN conjunct1,
            THEN mp, OF d]
    by (simp add: up newcomer_def waitingStore_def)
  have 5: "battleState (fst (snd (joinRoom newcomer offlineStore ''ab23cd''))) = BIdle
      \<and> snd (snd (joinRoom newcomer offlineStore ''ab23cd'')) = offlineStore"
    using t[where st = offlineStore,
            THEN conjunct2, THEN conjunct2, THEN conjunct2, THEN conjunct2, THEN conjunct2,
            THEN mp, OF e]
    by simp
  show ?thesis using 0 1 2 3 4 5 b c e by simp
qed

text \<open>C9: \<open>joinRoom\<close> does not distinguish a code from its upper-case form: it reads and
  updates the room stored under the upper-case form and keeps that form as the local
  room code.\<close>

theorem joinRoom_case_insensitive:
  "joinRoom s st code = joinRoom s st (toUpperCase code)
   \<and> (fst (joinRoom s st code) \<longrightarrow>
        roomCode (fst (snd (joinRoom s st code))) = Some (toUpperCase code)
        \<and> (\<exists>r. docs st (toUpperCase code) = Some r \<and>
             docs (snd (snd (joinRoom s st code))) =
               (docs st)(toUpperCase code \<mapsto>
                           r\<lparr>guestId := Some (playerId s), status := Ready\<rparr>)))"
proof (intro conjI impI)
  show "joinRoom s st code = joinRoom s st (toUpperCase code)"
    unfolding joinRoom_def toUpperCase_idem by (rule refl)
next
  assume "fst (joinRoom s st code)"
  then show "roomCode (fst (snd (joinRoom s st code))) = Some (toUpperCase code)"
    by (auto simp: joinRoom_def joinRoom_failed_def Let_def
          split: option.splits sum.splits if_splits)
next
  assume "fst (joinRoom s st code)"
  then show "\<exists>r. docs st (toUpperCase code) = Some r \<and>
             docs (snd (snd (joinRoom s st code))) =
               (docs st)(toUpperCase code \<mapsto>
                           r\<lparr>guestId := Some (playerId s), status := Ready\<rparr>)"
    by (auto simp: joinRoom_def joinRoom_failed_def doc_def getDoc_def updateDoc_def Let_def
          split: option.splits sum.splits if_splits)
qed

text \<open>Witness for C9: the codes ab23cd, Ab23cD and AB23CD join the same waiting room.\<close>

theorem joinRoom_case_insensitive_witness:
  "joinRoom newcomer waitingStore ''ab23cd'' = joinRoom newcomer waitingStore ''AB23CD''
   \<and> joinRoom newcomer waitingStore ''Ab23cD'' = joinRoom newcomer waitingStore ''AB23CD''
   \<and> fst (joinRoom newcomer waitingStore ''ab23cd'')
   \<and> roomCode (fst (snd (joinRoom newcomer waitingStore ''ab23cd''))) = Some ''AB23CD''"
proof -
  have up: "toUpperCase ''ab23cd'' = ''AB23CD''" "toUpperCase ''Ab23cD'' = ''AB23CD''"
    by (simp_all add: toUpperCase_def upperChar_def lowerChars_def upperChars_def)
  have ok: "fst (joinRoom newcomer waitingStore ''ab23cd'')"
    by (simp add: joinRoom_def up doc_def isDocumentId_def getDoc_def updateDoc_def
          waitingStore_def waitingRoom_def freshRoom_def truthy_def)
  from joinRoom_case_insensitive[of newcomer waitingStore "''ab23cd''"]
  have e1: "joinRoom newcomer waitingStore ''ab23cd'' =
            joinRoom newcomer waitingStore (toUpperCase ''ab23cd'')"
    and i1: "fst (joinRoom newcomer waitingStore ''ab23cd'') \<longrightarrow>
             roomCode (fst (snd (joinRoom newcomer waitingStore ''ab23cd''))) =
               Some (toUpperCase ''ab23cd'')"
    by blast+
  from joinRoom_case_insensitive[of newcomer waitingStore "''Ab23cD''"]
  have e2: "joinRoom newcomer waitingStore ''Ab23cD'' =
            joinRoom newcomer waitingStore (toUpperCase ''Ab23cD'')"
    by blast
  have r1: "roomCode (fst (snd (joinRoom newcomer waitingStore ''ab23cd''))) =
            Some (toUpperCase ''ab23cd'')"
    using i1 ok by blast
  show ?thesis using e1 e2 r1 ok unfolding up by blast
qed

text \<open>C8: \<open>leaveRoom\<close> of the host deletes the Room document, and a guest who then receives
  the snapshot is reset to \<open>BIdle\<close>; \<open>leaveRoom\<close> of the guest sets \<open>guestId\<close> to null and
  the status to \<open>Waiting\<close> and leaves the other fields of the room as they are; in both
  cases, and whatever the store answers, the caller's room code, room, role, state and
  error are reset.\<close>

theorem leaveRoom_effects:
  "(roomCode s = Some code \<and> code \<noteq> [] \<longrightarrow>
      fst (leaveRoom s st) =
        s\<lparr>roomCode := None, room := None, playerRole := None, battleState := BIdle,
          error := None\<rparr>)
   \<and> (roomCode s = Some code \<and> code \<noteq> [] \<and> playerRole s = Some Host \<and> online st \<longrightarrow>
        snd (leaveRoom s st) = st\<lparr>docs := (docs st)(code := None)\<rparr>
        \<and> (roomCode g = Some code \<longrightarrow>
             onSnapshot g (snd (leaveRoom s st)) =
               g\<lparr>room := None, roomCode := None, playerRole := None, battleState := BIdle\<rparr>))
   \<and> (roomCode s = Some code \<and> code \<noteq> [] \<and> playerRole s = Some Guest \<and> online st
        \<and> docs st code = Some r \<longrightarrow>
        snd (leaveRoom s st) =
          st\<lparr>docs := (docs st)(code \<mapsto> r\<lparr>guestId := None, status := Waiting\<rparr>)\<rparr>)"
  by (auto simp: leaveRoom_def deleteDoc_def updateDoc_def onSnapshot_def Let_def)

text \<open>Witness for C8: the host leaves a room that is \<open>Playing\<close> and the guest gets the
  snapshot; the guest leaves the same room.\<close>

theorem leaveRoom_effects_witness:
  "fst (leaveRoom (hostSession playingRoom) playingStore) =
     (hostSession playingRoom)\<lparr>roomCode := None, room := None, playerRole := None,
                               battleState := BIdle\<rparr>
   \<and> docs (snd (leaveRoom (hostSession playingRoom) playingStore)) ''AB23CD'' = None
   \<and> battleState (onSnapshot (guestSession playingRoom)
                    (snd (leaveRoom (hostSession playingRoom) playingStore))) = BIdle
   \<and> fst (leaveRoom (guestSession playingRoom) playingStore) =
     (guestSession playingRoom)\<lparr>roomCode := None, room := None, playerRole := None,
                                battleState := BIdle\<rparr>
   \<and> docs (snd (leaveRoom (guestSession playingRoom) playingStore)) ''AB23CD'' =
       Some (playingRoom\<lparr>guestId := None, status := Waiting\<rparr>)"
proof -
  have h: "roomCode (hostSession playingRoom) = Some ''AB23CD'' \<and> ''AB23CD'' \<noteq> []
      \<and> playerRole (hostSession playingRoom) = Some Host \<and> online playingStore"
    by (simp add: hostSession_def playingStore_def)
  have g: "roomCode (guestSession playingRoom) = Some ''AB23CD'' \<and> ''AB23CD'' \<noteq> []
      \<and> playerRole (guestSession playingRoom) = Some Guest \<and> online playingStore
      \<and> docs playingStore ''AB23CD'' = Some playingRoom"
    by (simp add: guestSession_def playingStore_def)
  have gc: "roomCode (guestSession playingRoom) = Some ''AB23CD''"
    by (simp add: guestSession_def)
  note hl = leaveRoom_effects[where s = "hostSession playingRoom" and code = "''AB23CD''"
      and st = playingStore and g = "guestSession playingRoom"]
  note gl = leaveRoom_effects[where s = "guestSession playingRoom" and code = "''AB23CD''"
      and st = playingStore and r = playingRoom]
  have h1: "fst (leaveRoom (hostSession playingRoom) playingStore) =
      (hostSession playingRoom)\<lparr>roomCode := None, room := None, playerRole := None,
                                battleState := BIdle, error := None\<rparr>"
    using hl[THEN conjunct1] h by blast
  have h2: "snd (leaveRoom (hostSession playingRoom) playingStore) =
      playingStore\<lparr>docs := (docs playingStore)(''AB23CD'' := None)\<rparr>"
    and h3: "onSnapshot (guestSession playingRoom)
               (snd (leaveRoom (hostSession playingRoom) playingStore)) =
             (guestSession playingRoom)\<lparr>room := None, roomCode := None, playerRole := None,
                                        battleState := BIdle\<rparr>"
    using hl[THEN conjunct2, THEN conjunct1, THEN mp, OF h] gc by blast+
  have g1: "fst (leaveRoom (guestSession playingRoom) playingStore) =
      (guestSession playingRoom)\<lparr>roomCode := None, room := None, playerRole := None,
                                 battleState := BIdle, error := None\<rparr>"
    using gl[THEN conjunct1] g by blast
  have g2: "snd (leaveRoom (guestSession playingRoom) playingStore) =
      playingStore\<lparr>docs := (docs playingStore)(''AB23CD'' \<mapsto>
                                 playingRoom\<lparr>guestId := None, status := Waiting\<rparr>)\<rparr>"
    using gl[THEN conjunct2, THEN conjunct2, THEN mp, OF g] .
  have e: "error (hostSession playingRoom) = None" "error (guestSession playingRoom) = None"
    by (simp_all add: hostSession_def guestSession_def)
  note h3' = h3[unfolded h2]
  show ?thesis unfolding h1 h2 h3' g1 g2
    by (simp add: hostSession_def guestSession_def)
qed

section \<open>Starting again\<close>

text \<open>C10: when the host's \<open>playAgain\<close> reaches the stored room, one update sets the status
  to \<open>Countdown\<close>, the round to 1, the scores to 0 and 0, and \<open>gameWinner\<close>, \<open>roundWinner\<close>,
  \<open>hostGuess\<close> and \<open>guestGuess\<close> to null; so afterwards \<open>gameWinner\<close> is set exactly when
  the status is \<open>Finished\<close> (neither is), and both guesses are null.\<close>

theorem playAgain_resets:
  assumes "roomCode s = Some code" and "code \<noteq> []" and "playerRole s = Some Host"
    and "online st" and "docs st code = Some d"
  shows "docs (playAgain s st (Some pokemon)) code =
           Some (d\<lparr>status := Countdown, currentRound := 1, currentPokemon := Some pokemon,
                   scores := \<lparr>host = 0, guest = 0\<rparr>, roundWinner := None, gameWinner := None,
                   hostGuess := None, guestGuess := None,
                   countdownStartAt := Some (serverTime st)\<rparr>)
         \<and> (\<forall>d'. docs (playAgain s st (Some pokemon)) code = Some d' \<longrightarrow>
              ((gameWinner d' \<noteq> None) = (status d' = Finished))
              \<and> hostGuess d' = None \<and> guestGuess d' = None)"
  using assms by (simp add: playAgain_def updateDoc_def)

text \<open>Witness for C10: the host restarts a match that it won 3 to 0.\<close>

theorem playAgain_resets_witness:
  "gameWinner finishedRoom = Some Host \<and> status finishedRoom = Finished
   \<and> hostGuess finishedRoom \<noteq> None
   \<and> docs (playAgain (hostSession finishedRoom) finishedStore (Some mrMime)) ''AB23CD'' =
       Some (finishedRoom\<lparr>status := Countdown, currentRound := 1,
               currentPokemon := Some mrMime, scores := \<lparr>host = 0, guest = 0\<rparr>,
               roundWinner := None, gameWinner := None, hostGuess := None,
               guestGuess := None, countdownStartAt := Some 33\<rparr>)"
proof -
  have h: "roomCode (hostSession finishedRoom) = Some ''AB23CD''" "''AB23CD'' \<noteq> []"
    "playerRole (hostSession finishedRoom) = Some Host" "online finishedStore"
    "docs finishedStore ''AB23CD'' = Some finishedRoom"
    by (simp_all add: hostSession_def finishedStore_def)
  have f: "gameWinner finishedRoom = Some Host \<and> status finishedRoom = Finished
      \<and> hostGuess finishedRoom \<noteq> None"
    by (simp add: finishedRoom_def)
  have st: "serverTime finishedStore = 33" by (simp add: finishedStore_def)
  show ?thesis
    using playAgain_resets[OF h, of mrMime, THEN conjunct1] f unfolding st by blast
qed

section \<open>Scores along a match\<close>















lemma submitGuess_online: "online (snd (submitGuess s st t)) = online st"
  by (auto simp: submitGuess_def updateDoc_def Let_def split: option.splits sum.splits)

















end
